theory Spec2Isabelle
  imports Main "HOL-Library.Word"
begin

unbundle bit_operations_syntax

section \<open>Real Digital DRM HDMI encoder driver\<close>

text \<open>
  A shallow embedding of \<^verbatim>\<open>drivers/gpu/drm/xilinx/rd_drm_hdmi.c\<close>. Every callback of
  the driver is a function on an explicit state: the driver's private data, the
  connector it fills, and the trace of the calls it makes into the rest of the kernel.
  What the driver takes from the rest of the kernel (header constants, answers of the
  I2C bus, the device tree, the DRM helpers) is not part of this file of the driver; it
  enters the model as parameters and as helpers modelled from the specification.
\<close>

subsection \<open>Data\<close>

type_synonym u32 = "32 word"

text \<open>Handles: an I2C adapter, a DRM device and a device-tree node are identified by a number.\<close>

type_synonym i2c_adapter = nat
type_synonym drm_device = nat
type_synonym node_handle = nat

text \<open>The raw capability descriptor read from the display.\<close>

type_synonym edid = "8 word list"

text \<open>
  \<^verbatim>\<open>struct drm_display_mode\<close>: the four fields the driver reads. The fields
  \<^verbatim>\<open>clock\<close>, \<^verbatim>\<open>hdisplay\<close> and \<^verbatim>\<open>vdisplay\<close> are compared with \<^verbatim>\<open>u32\<close> limits, so C
  converts them to unsigned 32-bit values before comparing; the record holds that 32-bit
  value and \<open>\<le>\<close>, \<open><\<close> on \<open>32 word\<close> are the unsigned comparisons. Every other field
  of the structure is the extension part of the record scheme.
\<close>

record drm_display_mode =
  clock :: u32
  hdisplay :: u32
  vdisplay :: u32
  flags :: u32

text \<open>
  The flag masks \<^verbatim>\<open>DRM_MODE_FLAG_INTERLACE\<close>, \<^verbatim>\<open>DRM_MODE_FLAG_DBLCLK\<close> and
  \<^verbatim>\<open>DRM_MODE_FLAG_3D_MASK\<close> are macros of a header outside the driver. They are a
  parameter of the model: every theorem holds for all values of the three masks.
\<close>

record drm_mode_flag =
  DRM_MODE_FLAG_INTERLACE :: u32
  DRM_MODE_FLAG_DBLCLK :: u32
  DRM_MODE_FLAG_3D_MASK :: u32

text \<open>The values of \<^verbatim>\<open>enum drm_mode_status\<close> that the driver returns.\<close>

datatype drm_mode_status =
  MODE_OK | MODE_BAD | MODE_CLOCK_HIGH | MODE_PANEL | MODE_NO_INTERLACE

datatype drm_connector_status =
  connector_status_connected | connector_status_disconnected | connector_status_unknown

record rd_drm_hdmi_config =
  max_pclock :: u32
  max_horz_res :: u32
  max_vert_res :: u32
  pref_horz_res :: u32
  pref_vert_res :: u32

text \<open>\<^verbatim>\<open>struct drm_encoder\<close>: the DRM device the encoder belongs to.\<close>

record drm_encoder =
  dev :: drm_device

text \<open>
  A device-tree node, the configuration store: its properties that hold an unsigned
  32-bit value, by name (a property that is absent or does not parse as a \<^verbatim>\<open>u32\<close> has
  no entry), and its references to other nodes, by name.
\<close>

record device_node =
  props :: "string \<rightharpoonup> u32"
  phandles :: "string \<rightharpoonup> node_handle"

record device =
  of_node :: device_node

text \<open>
  \<^verbatim>\<open>struct rd_drm_hdmi\<close>. The pointers \<^verbatim>\<open>encoder\<close> and \<^verbatim>\<open>i2c_hdmi\<close> are \<^verbatim>\<open>NULL\<close>
  (\<open>None\<close>) in the zeroed structure that probing allocates; \<^verbatim>\<open>encoder\<close> is set by
  \<^verbatim>\<open>rd_drm_hdmi_encoder_init\<close>, \<^verbatim>\<open>i2c_hdmi\<close> by \<^verbatim>\<open>rd_drm_hdmi_parse_of\<close>.
\<close>

record rd_drm_hdmi =
  encoder :: "drm_encoder option"
  dev :: device
  config :: rd_drm_hdmi_config
  i2c_hdmi :: "i2c_adapter option"

text \<open>
  The connector as far as the driver's helpers write it: the modes probed so far, the
  EDID property, and the preferred mode, if there is one.
\<close>

record drm_connector =
  probed_modes :: "drm_display_mode list"
  edid_blob_ptr :: "edid option"
  preferred_mode :: "drm_display_mode option"

text \<open>
  The calls into the rest of the kernel that have an effect outside the driver, in the
  order they are made. An argument of a log message is a string or a number.
\<close>

datatype printk_arg = ARG_S string | ARG_D u32

datatype event =
    EV_DRM_INFO string "printk_arg list"
  | EV_PROBE_DDC i2c_adapter
  | EV_GET_EDID i2c_adapter
  | EV_KFREE edid
  | EV_OF_NODE_PUT node_handle
  | EV_HPD_IRQ_EVENT drm_device

record kstate =
  dp :: rd_drm_hdmi
  connector :: drm_connector
  trace :: "event list"

text \<open>
  The answers of the rest of the kernel during one call of the driver: what the bus and
  the display answer, which adapter belongs to a node, which modes a descriptor
  declares, the standard timing table, and which entries of that table the synthesis of
  a mode list takes for given bounds.
\<close>

record kernel =
  probe_ddc_result :: "i2c_adapter \<Rightarrow> int"
  get_edid_result :: "i2c_adapter \<Rightarrow> edid option"
  edid_modes :: "edid \<Rightarrow> drm_display_mode list"
  i2c_adapter_of_node :: "node_handle \<Rightarrow> i2c_adapter option"
  drm_dmt_modes :: "drm_display_mode list"
  noedid_takes :: "u32 \<Rightarrow> u32 \<Rightarrow> drm_display_mode \<Rightarrow> bool"

definition DEF_PIXCLK :: u32 where "DEF_PIXCLK = 150000"
definition DEF_MAX_HORZ :: u32 where "DEF_MAX_HORZ = 1920"
definition DEF_MAX_VERT :: u32 where "DEF_MAX_VERT = 1080"
definition DEF_PREF_HORZ :: u32 where "DEF_PREF_HORZ = 1280"
definition DEF_PREF_VERT :: u32 where "DEF_PREF_VERT = 720"

subsection \<open>Helpers of the kernel\<close>

text \<open>
  Modelled from the spec: \<^verbatim>\<open>DRM_INFO\<close>, the kernel's informational log, is not part of
  the driver's file. It "emits an informational diagnostic"; the model appends the
  format string and its arguments to the trace.
\<close>

definition DRM_INFO :: "string \<Rightarrow> printk_arg list \<Rightarrow> kstate \<Rightarrow> kstate" where
  "DRM_INFO fmt args s = s\<lparr>trace := trace s @ [EV_DRM_INFO fmt args]\<rparr>"

text \<open>
  Modelled from the spec: \<^verbatim>\<open>of_property_read_u32\<close> is not part of the driver's file.
  It looks the key up in the configuration store: "if present and parseable as an
  unsigned 32-bit integer" it returns 0 and the value, otherwise a negative error code
  (and writes no value; the second component is then 0 and the driver does not read it).
\<close>

definition of_property_read_u32 :: "device_node \<Rightarrow> string \<Rightarrow> int \<times> u32" where
  "of_property_read_u32 node propname =
     (case props node propname of
        Some v \<Rightarrow> (0, v)
      | None \<Rightarrow> (- 22, 0))"

text \<open>
  Modelled from the spec: \<^verbatim>\<open>of_parse_phandle\<close>, \<^verbatim>\<open>of_find_i2c_adapter_by_node\<close> and
  \<^verbatim>\<open>of_node_put\<close> are not part of the driver's file. They resolve "an optional
  phandle-like reference to an auxiliary-channel adapter": the node the reference names
  if the reference is present, the adapter of that node if one is found, and the release
  of the node.
\<close>

definition of_parse_phandle :: "device_node \<Rightarrow> string \<Rightarrow> nat \<Rightarrow> node_handle option" where
  "of_parse_phandle node phandle_name index = (if index = 0 then phandles node phandle_name else None)"

definition of_find_i2c_adapter_by_node :: "kernel \<Rightarrow> node_handle \<Rightarrow> i2c_adapter option" where
  "of_find_i2c_adapter_by_node K n = i2c_adapter_of_node K n"

definition of_node_put :: "node_handle \<Rightarrow> kstate \<Rightarrow> kstate" where
  "of_node_put n s = s\<lparr>trace := trace s @ [EV_OF_NODE_PUT n]\<rparr>"

text \<open>
  Modelled from the spec: \<^verbatim>\<open>drm_probe_ddc\<close> is not part of the driver's file. It
  "performs a lightweight presence probe (display-data-channel probe) over that
  channel" and reports a non-zero result on success; the probe is recorded in the trace.
\<close>

definition drm_probe_ddc :: "kernel \<Rightarrow> i2c_adapter \<Rightarrow> kstate \<Rightarrow> int \<times> kstate" where
  "drm_probe_ddc K adapter s =
     (probe_ddc_result K adapter, s\<lparr>trace := trace s @ [EV_PROBE_DDC adapter]\<rparr>)"

text \<open>
  Modelled from the spec: \<^verbatim>\<open>drm_get_edid\<close> is not part of the driver's file. It
  "attempts to read the full capability descriptor from the display"; the result is
  \<open>None\<close> (\<^verbatim>\<open>NULL\<close>) when the read fails or returns no data. The read is recorded in the
  trace.
\<close>

definition drm_get_edid :: "kernel \<Rightarrow> i2c_adapter \<Rightarrow> kstate \<Rightarrow> edid option \<times> kstate" where
  "drm_get_edid K adapter s =
     (get_edid_result K adapter, s\<lparr>trace := trace s @ [EV_GET_EDID adapter]\<rparr>)"

text \<open>
  Modelled from the spec: \<^verbatim>\<open>drm_mode_connector_update_edid_property\<close>,
  \<^verbatim>\<open>drm_add_edid_modes\<close> and \<^verbatim>\<open>kfree\<close> are not part of the driver's file. They "expose
  the manufacturer-declared edid blob to the connector layer" and "delegate to the
  external EDID-parsing capability to obtain the full mode list", which is added to the
  connector's probed modes; the number of modes added is returned.
\<close>

definition drm_mode_connector_update_edid_property :: "edid \<Rightarrow> kstate \<Rightarrow> kstate" where
  "drm_mode_connector_update_edid_property e s =
     s\<lparr>connector := (connector s)\<lparr>edid_blob_ptr := Some e\<rparr>\<rparr>"

definition drm_add_edid_modes :: "kernel \<Rightarrow> edid \<Rightarrow> kstate \<Rightarrow> int \<times> kstate" where
  "drm_add_edid_modes K e s =
     (int (length (edid_modes K e)),
      s\<lparr>connector := (connector s)\<lparr>probed_modes := probed_modes (connector s) @ edid_modes K e\<rparr>\<rparr>)"

definition kfree :: "edid \<Rightarrow> kstate \<Rightarrow> kstate" where
  "kfree e s = s\<lparr>trace := trace s @ [EV_KFREE e]\<rparr>"

text \<open>
  Modelled from the spec: \<^verbatim>\<open>drm_add_modes_noedid\<close> is not part of the driver's file. It
  "synthesizes a mode list bounded by" the maximum horizontal and vertical resolution
  "from the envelope using a fixed standard timing table": entries of the table, each
  within both bounds, are added to the connector's probed modes in the table's order,
  and their number is returned. The specification does not say which of the entries
  within the bounds are taken: that choice is the parameter \<open>noedid_takes\<close>.
\<close>

definition drm_add_modes_noedid :: "kernel \<Rightarrow> u32 \<Rightarrow> u32 \<Rightarrow> kstate \<Rightarrow> int \<times> kstate" where
  "drm_add_modes_noedid K hdisp vdisp s =
     (let ms = filter (\<lambda>m. hdisplay m \<le> hdisp \<and> vdisplay m \<le> vdisp \<and>
                           noedid_takes K hdisp vdisp m) (drm_dmt_modes K)
      in (int (length ms),
          s\<lparr>connector := (connector s)\<lparr>probed_modes := probed_modes (connector s) @ ms\<rparr>\<rparr>))"

text \<open>
  Modelled from the spec: \<^verbatim>\<open>drm_set_preferred_mode\<close> is not part of the driver's file.
  It "explicitly sets the preferred mode to" the preferred horizontal and vertical
  resolution "from the envelope". The preferred mode is a display mode and is optional
  ("optional preferred DisplayMode"): it is the first probed mode of the connector that
  has exactly this resolution, and there is none when no probed mode has it.
\<close>

definition drm_set_preferred_mode :: "u32 \<Rightarrow> u32 \<Rightarrow> kstate \<Rightarrow> kstate" where
  "drm_set_preferred_mode hpref vpref s =
     s\<lparr>connector := (connector s)
          \<lparr>preferred_mode := find (\<lambda>m. hdisplay m = hpref \<and> vdisplay m = vpref)
                                  (probed_modes (connector s))\<rparr>\<rparr>"


subsection \<open>The encoder callbacks\<close>




text \<open>The third component is the adjusted mode after the call.\<close>

definition rd_drm_hdmi_mode_fixup ::
  "('a drm_display_mode_scheme) \<Rightarrow> ('b drm_display_mode_scheme) \<Rightarrow> kstate
     \<Rightarrow> bool \<times> ('b drm_display_mode_scheme) \<times> kstate" where
  "rd_drm_hdmi_mode_fixup mode adjusted_mode s = (True, adjusted_mode, s)"

text \<open>A \<^verbatim>\<open>NULL\<close> mode is \<open>None\<close>.\<close>

definition rd_drm_hdmi_mode_valid ::
  "drm_mode_flag \<Rightarrow> ('a drm_display_mode_scheme) option \<Rightarrow> kstate \<Rightarrow> drm_mode_status \<times> kstate" where
  "rd_drm_hdmi_mode_valid F mode s =
     (let max_pclock' = max_pclock (config (dp s)) in
      case mode of
        None \<Rightarrow> (MODE_BAD, s)
      | Some m \<Rightarrow>
          if clock m > max_pclock' then (MODE_CLOCK_HIGH, s)
          else if hdisplay m > max_horz_res (config (dp s)) \<or>
                  vdisplay m > max_vert_res (config (dp s)) then (MODE_PANEL, s)
          else if flags m AND DRM_MODE_FLAG_INTERLACE F \<noteq> 0 then (MODE_NO_INTERLACE, s)
          else if flags m AND (DRM_MODE_FLAG_DBLCLK F OR DRM_MODE_FLAG_3D_MASK F) \<noteq> 0
            then (MODE_BAD, s)
          else (MODE_OK, s))"

definition rd_drm_hdmi_mode_set ::
  "('a drm_display_mode_scheme) \<Rightarrow> ('b drm_display_mode_scheme) \<Rightarrow> kstate \<Rightarrow> kstate" where
  "rd_drm_hdmi_mode_set mode adjusted_mode s = s"

definition rd_drm_hdmi_detect :: "kernel \<Rightarrow> kstate \<Rightarrow> drm_connector_status \<times> kstate" where
  "rd_drm_hdmi_detect K s =
     (case i2c_hdmi (dp s) of
        Some adapter \<Rightarrow>
          (let (r, s1) = drm_probe_ddc K adapter s in
           if r \<noteq> 0 then (connector_status_connected, s1)
           else (connector_status_disconnected, s1))
      | None \<Rightarrow> (connector_status_unknown, s))"

definition rd_drm_hdmi_get_modes :: "kernel \<Rightarrow> kstate \<Rightarrow> int \<times> kstate" where
  "rd_drm_hdmi_get_modes K s =
     (case i2c_hdmi (dp s) of
        Some adapter \<Rightarrow>
          (let (edid, s1) = drm_get_edid K adapter s in
           case edid of
             None \<Rightarrow> (0, s1)
           | Some e \<Rightarrow>
               (let s2 = drm_mode_connector_update_edid_property e s1;
                    (ret, s3) = drm_add_edid_modes K e s2;
                    s4 = kfree e s3
                in (ret, s4)))
      | None \<Rightarrow>
          (let cfg = config (dp s);
               (ret, s1) = drm_add_modes_noedid K (max_horz_res cfg) (max_vert_res cfg) s;
               s2 = drm_set_preferred_mode (pref_horz_res cfg) (pref_vert_res cfg) s1
           in (ret, s2)))"

subsection \<open>Reading the device tree\<close>

definition rd_of_read_u32 :: "device_node \<Rightarrow> string \<Rightarrow> u32 \<Rightarrow> kstate \<Rightarrow> u32 \<times> kstate" where
  "rd_of_read_u32 node param def s =
     (let rd_param = ''realdigital,'' @ param;
          (ret, val) = of_property_read_u32 node rd_param
      in if ret < 0
         then (def, DRM_INFO (''No value for '%s', using default: %d'' @ [CHR 0x0A])
                      [ARG_S rd_param, ARG_D def] s)
         else (val, s))"

text \<open>The assignment \<^verbatim>\<open>config->field = v\<close> through the pointer to \<^verbatim>\<open>dp->config\<close>.\<close>

definition config_assign ::
  "(rd_drm_hdmi_config \<Rightarrow> rd_drm_hdmi_config) \<Rightarrow> kstate \<Rightarrow> kstate" where
  "config_assign f s = s\<lparr>dp := (dp s)\<lparr>config := f (config (dp s))\<rparr>\<rparr>"

definition rd_drm_hdmi_parse_of :: "kernel \<Rightarrow> kstate \<Rightarrow> int \<times> kstate" where
  "rd_drm_hdmi_parse_of K s =
     (let node = of_node (dev (dp s));
          s0 = (case of_parse_phandle node ''realdigital,i2c-edid'' 0 of
                  Some i2c_node \<Rightarrow>
                    (let sa = s\<lparr>dp := (dp s)\<lparr>i2c_hdmi := of_find_i2c_adapter_by_node K i2c_node\<rparr>\<rparr>;
                         sb = (if i2c_hdmi (dp sa) = None
                               then DRM_INFO (''HDMI I2C interface not found, default modes will be used''
                                                @ [CHR 0x0A]) [] sa
                               else sa)
                     in of_node_put i2c_node sb)
                | None \<Rightarrow> s);
          (v1, s1) = rd_of_read_u32 node ''max-pclock'' DEF_PIXCLK s0;
          s1' = config_assign (\<lambda>c. c\<lparr>max_pclock := v1\<rparr>) s1;
          (v2, s2) = rd_of_read_u32 node ''max-horz-res'' DEF_MAX_HORZ s1';
          s2' = config_assign (\<lambda>c. c\<lparr>max_horz_res := v2\<rparr>) s2;
          (v3, s3) = rd_of_read_u32 node ''max-vert-res'' DEF_MAX_VERT s2';
          s3' = config_assign (\<lambda>c. c\<lparr>max_vert_res := v3\<rparr>) s3;
          (v4, s4) = rd_of_read_u32 node ''pref-horz-res'' DEF_PREF_HORZ s3';
          s4' = config_assign (\<lambda>c. c\<lparr>pref_horz_res := v4\<rparr>) s4;
          (v5, s5) = rd_of_read_u32 node ''pref-vert-res'' DEF_PREF_VERT s4';
          s5' = config_assign (\<lambda>c. c\<lparr>pref_vert_res := v5\<rparr>) s5
      in (0, s5'))"

text \<open>
  \<^verbatim>\<open>rd_drm_hdmi_encoder_init\<close>: the encoder is attached to the private data
  (\<^verbatim>\<open>dp->encoder = &encoder->base\<close>), then the device tree is read.
\<close>

definition rd_drm_hdmi_encoder_init :: "kernel \<Rightarrow> drm_encoder \<Rightarrow> kstate \<Rightarrow> int \<times> kstate" where
  "rd_drm_hdmi_encoder_init K enc s =
     rd_drm_hdmi_parse_of K (s\<lparr>dp := (dp s)\<lparr>encoder := Some enc\<rparr>\<rparr>)"

subsection \<open>Binding the platform device\<close>


subsection \<open>Power management\<close>



subsection \<open>The words of the specification\<close>

text \<open>
  The specification's display mode has three booleans where the structure has a flag
  word: \<open>interlaced\<close>, \<open>double_clock\<close> and \<open>stereo_3d\<close> say that the flag word has a
  bit of the named mask.
\<close>

definition interlaced :: "drm_mode_flag \<Rightarrow> ('a drm_display_mode_scheme) \<Rightarrow> bool" where
  "interlaced F m = (flags m AND DRM_MODE_FLAG_INTERLACE F \<noteq> 0)"

definition double_clock :: "drm_mode_flag \<Rightarrow> ('a drm_display_mode_scheme) \<Rightarrow> bool" where
  "double_clock F m = (flags m AND DRM_MODE_FLAG_DBLCLK F \<noteq> 0)"

definition stereo_3d :: "drm_mode_flag \<Rightarrow> ('a drm_display_mode_scheme) \<Rightarrow> bool" where
  "stereo_3d F m = (flags m AND DRM_MODE_FLAG_3D_MASK F \<noteq> 0)"

text \<open>
  The resolver's outcome for one key in the specification's words: the stored value if
  the key is present, the default otherwise; and the diagnostic that names the missing
  key and the default.
\<close>

definition read_or :: "device_node \<Rightarrow> string \<Rightarrow> u32 \<Rightarrow> u32" where
  "read_or node key d = (case props node key of Some v \<Rightarrow> v | None \<Rightarrow> d)"

definition config_defaulted :: "device_node \<Rightarrow> string \<Rightarrow> u32 \<Rightarrow> event list" where
  "config_defaulted node key d =
     (case props node key of
        Some v \<Rightarrow> []
      | None \<Rightarrow> [EV_DRM_INFO (''No value for '%s', using default: %d'' @ [CHR 0x0A])
                   [ARG_S key, ARG_D d]])"

text \<open>
  The events of resolving the reference to the auxiliary channel: none without a
  reference; with one, the diagnostic if no adapter is found, then the release of the
  node.
\<close>

definition i2c_edid_events :: "kernel \<Rightarrow> device_node \<Rightarrow> event list" where
  "i2c_edid_events K node =
     (case phandles node ''realdigital,i2c-edid'' of
        None \<Rightarrow> []
      | Some n \<Rightarrow>
          (case i2c_adapter_of_node K n of
             None \<Rightarrow> [EV_DRM_INFO (''HDMI I2C interface not found, default modes will be used''
                                    @ [CHR 0x0A]) []]
           | Some a \<Rightarrow> []) @ [EV_OF_NODE_PUT n])"

abbreviation dt_node :: "kstate \<Rightarrow> device_node" where
  "dt_node s \<equiv> of_node (dev (dp s))"

subsection \<open>Concrete inputs\<close>

text \<open>
  The masks as the Linux UAPI header has them: bit 4 for interlace, bit 12 for double
  clock, bits 14 to 18 for the stereo layout.
\<close>

definition uapi_flags :: drm_mode_flag where
  "uapi_flags = \<lparr>DRM_MODE_FLAG_INTERLACE = 0x10, DRM_MODE_FLAG_DBLCLK = 0x1000,
                  DRM_MODE_FLAG_3D_MASK = 0x7C000\<rparr>"

definition default_config :: rd_drm_hdmi_config where
  "default_config = \<lparr>max_pclock = 150000, max_horz_res = 1920, max_vert_res = 1080,
                      pref_horz_res = 1280, pref_vert_res = 720\<rparr>"

text \<open>The envelope of a 320 x 240 panel.\<close>

definition small_panel_config :: rd_drm_hdmi_config where
  "small_panel_config = \<lparr>max_pclock = 150000, max_horz_res = 320, max_vert_res = 240,
                          pref_horz_res = 320, pref_vert_res = 240\<rparr>"

definition example_mode :: "u32 \<Rightarrow> u32 \<Rightarrow> u32 \<Rightarrow> u32 \<Rightarrow> drm_display_mode" where
  "example_mode c h v f = \<lparr>clock = c, hdisplay = h, vdisplay = v, flags = f\<rparr>"

text \<open>
  Five standard timings: pixel clock in kHz, active width and height, and the sync
  polarity flags.
\<close>

definition standard_timings :: "drm_display_mode list" where
  "standard_timings =
     [example_mode 25175 640 480 0x0A, example_mode 40000 800 600 0x05,
      example_mode 65000 1024 768 0x0A, example_mode 74250 1280 720 0x05,
      example_mode 148500 1920 1080 0x05]"

text \<open>
  A kernel whose bus answers the presence probe with \<open>r\<close> and the descriptor read with
  \<open>e\<close>, and whose synthesis of a mode list takes every standard timing within the
  bounds.
\<close>

definition example_kernel :: "int \<Rightarrow> edid option \<Rightarrow> kernel" where
  "example_kernel r e =
     \<lparr>probe_ddc_result = (\<lambda>a. r), get_edid_result = (\<lambda>a. e), edid_modes = (\<lambda>e. []),
      i2c_adapter_of_node = (\<lambda>n. None), drm_dmt_modes = standard_timings,
      noedid_takes = (\<lambda>h v m. True)\<rparr>"

definition empty_node :: device_node where
  "empty_node = \<lparr>props = Map.empty, phandles = Map.empty\<rparr>"

text \<open>A device-tree node that sets the maximum pixel clock to zero.\<close>

definition zero_clock_node :: device_node where
  "zero_clock_node = \<lparr>props = [''realdigital,max-pclock'' \<mapsto> 0], phandles = Map.empty\<rparr>"

text \<open>
  An attached encoder with the given envelope and auxiliary channel, an empty connector
  and an empty trace.
\<close>

definition example_state :: "rd_drm_hdmi_config \<Rightarrow> i2c_adapter option \<Rightarrow> kstate" where
  "example_state cfg a =
     \<lparr>dp = \<lparr>encoder = Some \<lparr>drm_encoder.dev = 7\<rparr>, dev = \<lparr>of_node = empty_node\<rparr>,
             config = cfg, i2c_hdmi = a\<rparr>,
      connector = \<lparr>probed_modes = [], edid_blob_ptr = None, preferred_mode = None\<rparr>,
      trace = []\<rparr>"

text \<open>
  The state in which the device tree is read: the zeroed private data of the device
  with the given node, the encoder attached.
\<close>

definition example_state_of_node :: "device_node \<Rightarrow> kstate" where
  "example_state_of_node node =
     \<lparr>dp = \<lparr>encoder = Some \<lparr>drm_encoder.dev = 7\<rparr>, dev = \<lparr>of_node = node\<rparr>,
             config = \<lparr>max_pclock = 0, max_horz_res = 0, max_vert_res = 0,
                        pref_horz_res = 0, pref_vert_res = 0\<rparr>, i2c_hdmi = None\<rparr>,
      connector = \<lparr>probed_modes = [], edid_blob_ptr = None, preferred_mode = None\<rparr>,
      trace = []\<rparr>"


section \<open>Properties\<close>

subsection \<open>Auxiliary facts\<close>

text \<open>A flag word has a bit of the union of two masks iff it has a bit of one of them.\<close>

lemma flags_and_or:
  "((x::u32) AND (a OR b) \<noteq> 0) = (x AND a \<noteq> 0 \<or> x AND b \<noteq> 0)"
  by (auto simp add: bit.conj_disj_distrib or_eq_0_iff)

lemma rd_of_read_u32_eq:
  "rd_of_read_u32 node param def s =
     (read_or node (''realdigital,'' @ param) def,
      s\<lparr>trace := trace s @ config_defaulted node (''realdigital,'' @ param) def\<rparr>)"
  by (simp add: rd_of_read_u32_def of_property_read_u32_def read_or_def config_defaulted_def
      DRM_INFO_def split: option.split)

lemma parse_of_phandle_step:
  "(case of_parse_phandle node ''realdigital,i2c-edid'' 0 of
      Some i2c_node \<Rightarrow>
        (let sa = s\<lparr>dp := (dp s)\<lparr>i2c_hdmi := of_find_i2c_adapter_by_node K i2c_node\<rparr>\<rparr>;
             sb = (if i2c_hdmi (dp sa) = None
                   then DRM_INFO (''HDMI I2C interface not found, default modes will be used''
                                    @ [CHR 0x0A]) [] sa
                   else sa)
         in of_node_put i2c_node sb)
    | None \<Rightarrow> s) =
   s\<lparr>dp := (dp s)\<lparr>i2c_hdmi := (case phandles node ''realdigital,i2c-edid'' of
                                     None \<Rightarrow> i2c_hdmi (dp s)
                                   | Some n \<Rightarrow> i2c_adapter_of_node K n)\<rparr>,
      trace := trace s @ i2c_edid_events K node\<rparr>"
  by (auto simp add: of_parse_phandle_def of_find_i2c_adapter_by_node_def DRM_INFO_def
      of_node_put_def i2c_edid_events_def Let_def split: option.split)

text \<open>The whole effect of reading the device tree, in one equation.\<close>

lemma parse_of_eq:
  "rd_drm_hdmi_parse_of K s =
     (0, s\<lparr>dp := (dp s)\<lparr>
             config := \<lparr>max_pclock = read_or (dt_node s) ''realdigital,max-pclock'' DEF_PIXCLK,
                        max_horz_res = read_or (dt_node s) ''realdigital,max-horz-res'' DEF_MAX_HORZ,
                        max_vert_res = read_or (dt_node s) ''realdigital,max-vert-res'' DEF_MAX_VERT,
                        pref_horz_res = read_or (dt_node s) ''realdigital,pref-horz-res'' DEF_PREF_HORZ,
                        pref_vert_res = read_or (dt_node s) ''realdigital,pref-vert-res'' DEF_PREF_VERT\<rparr>,
             i2c_hdmi := (case phandles (dt_node s) ''realdigital,i2c-edid'' of
                            None \<Rightarrow> i2c_hdmi (dp s)
                          | Some n \<Rightarrow> i2c_adapter_of_node K n)\<rparr>,
           trace := trace s @ i2c_edid_events K (dt_node s)
                    @ config_defaulted (dt_node s) ''realdigital,max-pclock'' DEF_PIXCLK
                    @ config_defaulted (dt_node s) ''realdigital,max-horz-res'' DEF_MAX_HORZ
                    @ config_defaulted (dt_node s) ''realdigital,max-vert-res'' DEF_MAX_VERT
                    @ config_defaulted (dt_node s) ''realdigital,pref-horz-res'' DEF_PREF_HORZ
                    @ config_defaulted (dt_node s) ''realdigital,pref-vert-res'' DEF_PREF_VERT\<rparr>)"
  apply (simp only: rd_drm_hdmi_parse_of_def parse_of_phandle_step)
  apply (simp add: Let_def rd_of_read_u32_eq config_assign_def)
  done

text \<open>
  Attaching the encoder succeeds and leaves the encoder pointer set: the states the
  callbacks run in are those of an attached encoder.
\<close>

lemma encoder_init_attaches:
  "fst (rd_drm_hdmi_encoder_init K enc s) = 0
   \<and> encoder (dp (snd (rd_drm_hdmi_encoder_init K enc s))) = Some enc"
  by (simp add: rd_drm_hdmi_encoder_init_def parse_of_eq)

subsection \<open>The mode validator\<close>

text \<open>
  C1. For every non-null mode and every envelope, \<^verbatim>\<open>rd_drm_hdmi_mode_valid\<close> applies
  its rules in a fixed order and the first rule that matches decides: a pixel clock
  above \<open>max_pclock\<close> gives \<open>MODE_CLOCK_HIGH\<close> (clock too high); otherwise a width above
  \<open>max_horz_res\<close> or a height above \<open>max_vert_res\<close> gives \<open>MODE_PANEL\<close> (resolution too
  large); otherwise an interlaced mode gives \<open>MODE_NO_INTERLACE\<close>; otherwise a
  double-clock or stereo mode gives \<open>MODE_BAD\<close>; otherwise the mode is accepted with
  \<open>MODE_OK\<close>. So a mode within both limits with the three flags clear is accepted, and
  where several violations coexist the reason of the earlier rule is returned. The
  state is returned as it was.
\<close>

theorem mode_valid_rule_order:
  "(max_pclock (config (dp s)) < clock m \<longrightarrow>
      rd_drm_hdmi_mode_valid F (Some m) s = (MODE_CLOCK_HIGH, s))
   \<and> (clock m \<le> max_pclock (config (dp s)) \<and>
      (max_horz_res (config (dp s)) < hdisplay m \<or> max_vert_res (config (dp s)) < vdisplay m) \<longrightarrow>
      rd_drm_hdmi_mode_valid F (Some m) s = (MODE_PANEL, s))
   \<and> (clock m \<le> max_pclock (config (dp s)) \<and> hdisplay m \<le> max_horz_res (config (dp s)) \<and>
      vdisplay m \<le> max_vert_res (config (dp s)) \<and> interlaced F m \<longrightarrow>
      rd_drm_hdmi_mode_valid F (Some m) s = (MODE_NO_INTERLACE, s))
   \<and> (clock m \<le> max_pclock (config (dp s)) \<and> hdisplay m \<le> max_horz_res (config (dp s)) \<and>
      vdisplay m \<le> max_vert_res (config (dp s)) \<and> \<not> interlaced F m \<and>
      (double_clock F m \<or> stereo_3d F m) \<longrightarrow>
      rd_drm_hdmi_mode_valid F (Some m) s = (MODE_BAD, s))
   \<and> (clock m \<le> max_pclock (config (dp s)) \<and> hdisplay m \<le> max_horz_res (config (dp s)) \<and>
      vdisplay m \<le> max_vert_res (config (dp s)) \<and> \<not> interlaced F m \<and>
      \<not> double_clock F m \<and> \<not> stereo_3d F m \<longrightarrow>
      rd_drm_hdmi_mode_valid F (Some m) s = (MODE_OK, s))"
  by (auto simp add: rd_drm_hdmi_mode_valid_def interlaced_def double_clock_def stereo_3d_def
      flags_and_or Let_def)

text \<open>
  C1 at the default envelope (150000 kHz, 1920 x 1080), one mode for each rule: a
  297000 kHz, 4096 x 2160, interlaced mode is rejected for its clock; the same at
  148500 kHz for its resolution; an interlaced double-clock 1920 x 1080 mode for the
  interlace; a stereo mode as a bad mode; and 1920 x 1080 at 148500 kHz is accepted.
\<close>

theorem mode_valid_rule_order_witness:
  "rd_drm_hdmi_mode_valid uapi_flags (Some (example_mode 297000 4096 2160 0x10))
     (example_state default_config None) = (MODE_CLOCK_HIGH, example_state default_config None)
   \<and> rd_drm_hdmi_mode_valid uapi_flags (Some (example_mode 148500 4096 2160 0x10))
     (example_state default_config None) = (MODE_PANEL, example_state default_config None)
   \<and> rd_drm_hdmi_mode_valid uapi_flags (Some (example_mode 74250 1920 1080 0x1015))
     (example_state default_config None) = (MODE_NO_INTERLACE, example_state default_config None)
   \<and> rd_drm_hdmi_mode_valid uapi_flags (Some (example_mode 74250 1920 1080 0x8005))
     (example_state default_config None) = (MODE_BAD, example_state default_config None)
   \<and> rd_drm_hdmi_mode_valid uapi_flags (Some (example_mode 148500 1920 1080 0x5))
     (example_state default_config None) = (MODE_OK, example_state default_config None)"
  using mode_valid_rule_order
          [where F = uapi_flags and s = "example_state default_config None"
             and m = "example_mode 297000 4096 2160 0x10"]
        mode_valid_rule_order
          [where F = uapi_flags and s = "example_state default_config None"
             and m = "example_mode 148500 4096 2160 0x10"]
        mode_valid_rule_order
          [where F = uapi_flags and s = "example_state default_config None"
             and m = "example_mode 74250 1920 1080 0x1015"]
        mode_valid_rule_order
          [where F = uapi_flags and s = "example_state default_config None"
             and m = "example_mode 74250 1920 1080 0x8005"]
        mode_valid_rule_order
          [where F = uapi_flags and s = "example_state default_config None"
             and m = "example_mode 148500 1920 1080 0x5"]
  by (simp add: example_state_def default_config_def example_mode_def uapi_flags_def
      interlaced_def double_clock_def stereo_3d_def)

text \<open>
  C7. \<^verbatim>\<open>rd_drm_hdmi_mode_valid\<close> returns a result for every mode, the absent one
  included, under every envelope, and returns the state as it was; for the absent mode
  the result is \<open>MODE_BAD\<close> whatever the envelope and the masks are.
\<close>

theorem mode_valid_null_total_pure:
  "(\<exists>r. rd_drm_hdmi_mode_valid F (mode :: ('a drm_display_mode_scheme) option) s = (r, s))
   \<and> rd_drm_hdmi_mode_valid F (None :: ('a drm_display_mode_scheme) option) s = (MODE_BAD, s)"
  by (simp add: rd_drm_hdmi_mode_valid_def Let_def split: option.split)

text \<open>C7 at the default envelope and at the envelope of the small panel.\<close>

theorem mode_valid_null_total_pure_witness:
  "rd_drm_hdmi_mode_valid uapi_flags (None :: drm_display_mode option)
     (example_state default_config None) = (MODE_BAD, example_state default_config None)
   \<and> rd_drm_hdmi_mode_valid uapi_flags (None :: drm_display_mode option)
     (example_state small_panel_config (Some 3))
       = (MODE_BAD, example_state small_panel_config (Some 3))"
  using mode_valid_null_total_pure
          [where F = uapi_flags and s = "example_state default_config None"
             and mode = "None :: drm_display_mode option"]
        mode_valid_null_total_pure
          [where F = uapi_flags and s = "example_state small_panel_config (Some 3)"
             and mode = "None :: drm_display_mode option"]
  by simp

text \<open>
  C9. Two non-null modes that agree on the pixel clock, the width, the height and the
  interlace, double-clock and stereo flags get the same result under the same envelope:
  no other field of the mode (the rest of the flag word, the extension of the record)
  and nothing else in the state has a part in the result.
\<close>

theorem mode_valid_depends_only_on:
  "clock m1 = clock m2 \<Longrightarrow> hdisplay m1 = hdisplay m2 \<Longrightarrow> vdisplay m1 = vdisplay m2 \<Longrightarrow>
   interlaced F m1 = interlaced F m2 \<Longrightarrow> double_clock F m1 = double_clock F m2 \<Longrightarrow>
   stereo_3d F m1 = stereo_3d F m2 \<Longrightarrow> config (dp s1) = config (dp s2) \<Longrightarrow>
   fst (rd_drm_hdmi_mode_valid F (Some m1) s1) = fst (rd_drm_hdmi_mode_valid F (Some m2) s2)"
  by (simp add: rd_drm_hdmi_mode_valid_def interlaced_def double_clock_def stereo_3d_def
      flags_and_or Let_def)

text \<open>
  C9 at two 1920 x 1080 modes of opposite sync polarity, in a state without and a
  state with an auxiliary channel.
\<close>

theorem mode_valid_depends_only_on_witness:
  "fst (rd_drm_hdmi_mode_valid uapi_flags (Some (example_mode 148500 1920 1080 0x5))
          (example_state default_config None))
   = fst (rd_drm_hdmi_mode_valid uapi_flags (Some (example_mode 148500 1920 1080 0xA))
          (example_state default_config (Some 3)))"
  using mode_valid_depends_only_on
          [where F = uapi_flags and ?m1.0 = "example_mode 148500 1920 1080 0x5"
             and ?m2.0 = "example_mode 148500 1920 1080 0xA"
             and ?s1.0 = "example_state default_config None"
             and ?s2.0 = "example_state default_config (Some 3)"]
  by (simp add: example_state_def example_mode_def uapi_flags_def
      interlaced_def double_clock_def stereo_3d_def)

text \<open>
  C10. \<^verbatim>\<open>rd_drm_hdmi_mode_fixup\<close> returns true for every encoder state and every mode,
  and leaves the adjusted mode and the state as they were.
\<close>

theorem mode_fixup_true_unchanged:
  "rd_drm_hdmi_mode_fixup mode adjusted_mode s = (True, adjusted_mode, s)"
  by (simp add: rd_drm_hdmi_mode_fixup_def)

text \<open>C10 at a 4096 x 2160 mode that the validator rejects.\<close>

theorem mode_fixup_true_unchanged_witness:
  "rd_drm_hdmi_mode_fixup (example_mode 297000 4096 2160 0x10)
     (example_mode 148500 1920 1080 0x5) (example_state default_config None)
   = (True, example_mode 148500 1920 1080 0x5, example_state default_config None)"
  using mode_fixup_true_unchanged
          [where mode = "example_mode 297000 4096 2160 0x10"
             and adjusted_mode = "example_mode 148500 1920 1080 0x5"
             and s = "example_state default_config None"]
  by simp

subsection \<open>The connection detector\<close>

text \<open>
  C3. \<^verbatim>\<open>rd_drm_hdmi_detect\<close> returns unknown when no auxiliary channel is configured,
  and leaves the state as it was. With a channel it returns connected exactly when the
  presence probe answers non-zero and disconnected when the probe fails, and its only
  effect is the probe itself, once.
\<close>

theorem detect_status:
  "(i2c_hdmi (dp s) = None \<longrightarrow> rd_drm_hdmi_detect K s = (connector_status_unknown, s))
   \<and> (i2c_hdmi (dp s) = Some a \<longrightarrow>
        rd_drm_hdmi_detect K s =
          (if probe_ddc_result K a \<noteq> 0 then connector_status_connected
           else connector_status_disconnected,
           s\<lparr>trace := trace s @ [EV_PROBE_DDC a]\<rparr>))"
  by (simp add: rd_drm_hdmi_detect_def drm_probe_ddc_def)

text \<open>
  C3 without a channel, with a channel whose probe succeeds, and with a channel whose
  probe fails.
\<close>

theorem detect_status_witness:
  "rd_drm_hdmi_detect (example_kernel 1 None) (example_state default_config None)
     = (connector_status_unknown, example_state default_config None)
   \<and> rd_drm_hdmi_detect (example_kernel 1 None) (example_state default_config (Some 3))
     = (connector_status_connected,
        (example_state default_config (Some 3))\<lparr>trace := [EV_PROBE_DDC 3]\<rparr>)
   \<and> rd_drm_hdmi_detect (example_kernel 0 None) (example_state default_config (Some 3))
     = (connector_status_disconnected,
        (example_state default_config (Some 3))\<lparr>trace := [EV_PROBE_DDC 3]\<rparr>)"
  using detect_status [where K = "example_kernel 1 None"
                         and s = "example_state default_config None"]
        detect_status [where K = "example_kernel 1 None" and a = 3
                         and s = "example_state default_config (Some 3)"]
        detect_status [where K = "example_kernel 0 None" and a = 3
                         and s = "example_state default_config (Some 3)"]
  by (simp add: example_state_def example_kernel_def)

subsection \<open>The mode source\<close>

text \<open>
  C4. With an auxiliary channel configured, if reading the capability descriptor fails
  or returns no data, \<^verbatim>\<open>rd_drm_hdmi_get_modes\<close> returns 0, the count of an empty
  sequence and not an error code, and leaves the connector as it was: no mode is added
  and no preferred mode is set. Its only effect is the attempted read.
\<close>

theorem get_modes_edid_unavailable:
  "i2c_hdmi (dp s) = Some a \<Longrightarrow> get_edid_result K a = None \<Longrightarrow>
   rd_drm_hdmi_get_modes K s = (0, s\<lparr>trace := trace s @ [EV_GET_EDID a]\<rparr>)
   \<and> connector (snd (rd_drm_hdmi_get_modes K s)) = connector s"
  by (simp add: rd_drm_hdmi_get_modes_def drm_get_edid_def)

text \<open>C4 at an encoder with a channel whose display does not answer the read.\<close>

theorem get_modes_edid_unavailable_witness:
  "rd_drm_hdmi_get_modes (example_kernel 0 None) (example_state default_config (Some 3))
     = (0, (example_state default_config (Some 3))\<lparr>trace := [EV_GET_EDID 3]\<rparr>)
   \<and> probed_modes (connector (snd (rd_drm_hdmi_get_modes (example_kernel 0 None)
                                      (example_state default_config (Some 3))))) = []
   \<and> preferred_mode (connector (snd (rd_drm_hdmi_get_modes (example_kernel 0 None)
                                      (example_state default_config (Some 3))))) = None"
  using get_modes_edid_unavailable
          [where K = "example_kernel 0 None" and a = 3
             and s = "example_state default_config (Some 3)"]
  by (simp add: example_state_def example_kernel_def)





text \<open>
  The same call, evaluated: the five standard timings are returned, and the preferred
  mode is the 1280 x 720 timing.
\<close>

lemma get_modes_noedid_default_run:
  "rd_drm_hdmi_get_modes (example_kernel 0 None) (example_state default_config None) =
     (5, (example_state default_config None)
           \<lparr>connector := \<lparr>probed_modes = standard_timings, edid_blob_ptr = None,
                           preferred_mode = Some (example_mode 74250 1280 720 0x05)\<rparr>\<rparr>)"
  by (simp add: rd_drm_hdmi_get_modes_def drm_add_modes_noedid_def drm_set_preferred_mode_def
      example_state_def example_kernel_def default_config_def standard_timings_def
      example_mode_def Let_def)

subsection \<open>The configuration resolver\<close>

text \<open>
  C5. For every configuration store, \<^verbatim>\<open>rd_drm_hdmi_parse_of\<close> returns 0. Each of the
  five parameters of the envelope is the stored value when the key is present and the
  documented default otherwise (150000, 1920, 1080, 1280, 720), and for each missing
  key, in the order of the parameters, one informational diagnostic is emitted with the
  key and the default as arguments. With no keys set the envelope is the defaults
  exactly, and the diagnostics that follow the resolution of the auxiliary channel are
  those five.
\<close>

theorem parse_of_resolves:
  "fst (rd_drm_hdmi_parse_of K s) = 0
   \<and> config (dp (snd (rd_drm_hdmi_parse_of K s))) =
       \<lparr>max_pclock = read_or (dt_node s) ''realdigital,max-pclock'' 150000,
        max_horz_res = read_or (dt_node s) ''realdigital,max-horz-res'' 1920,
        max_vert_res = read_or (dt_node s) ''realdigital,max-vert-res'' 1080,
        pref_horz_res = read_or (dt_node s) ''realdigital,pref-horz-res'' 1280,
        pref_vert_res = read_or (dt_node s) ''realdigital,pref-vert-res'' 720\<rparr>
   \<and> trace (snd (rd_drm_hdmi_parse_of K s)) =
       trace s @ i2c_edid_events K (dt_node s)
       @ config_defaulted (dt_node s) ''realdigital,max-pclock'' 150000
       @ config_defaulted (dt_node s) ''realdigital,max-horz-res'' 1920
       @ config_defaulted (dt_node s) ''realdigital,max-vert-res'' 1080
       @ config_defaulted (dt_node s) ''realdigital,pref-horz-res'' 1280
       @ config_defaulted (dt_node s) ''realdigital,pref-vert-res'' 720
   \<and> (props (dt_node s) = Map.empty \<longrightarrow>
        config (dp (snd (rd_drm_hdmi_parse_of K s))) =
          \<lparr>max_pclock = 150000, max_horz_res = 1920, max_vert_res = 1080,
           pref_horz_res = 1280, pref_vert_res = 720\<rparr>
        \<and> trace (snd (rd_drm_hdmi_parse_of K s)) =
            trace s @ i2c_edid_events K (dt_node s)
            @ map (\<lambda>(key, d). EV_DRM_INFO (''No value for '%s', using default: %d'' @ [CHR 0x0A])
                                 [ARG_S key, ARG_D d])
                [(''realdigital,max-pclock'', 150000), (''realdigital,max-horz-res'', 1920),
                 (''realdigital,max-vert-res'', 1080), (''realdigital,pref-horz-res'', 1280),
                 (''realdigital,pref-vert-res'', 720)])"
  by (simp add: parse_of_eq read_or_def config_defaulted_def DEF_PIXCLK_def DEF_MAX_HORZ_def
      DEF_MAX_VERT_def DEF_PREF_HORZ_def DEF_PREF_VERT_def)

text \<open>
  C5 at the empty store (the defaults, five diagnostics) and at a store that sets the
  maximum pixel clock only (the stored value, four diagnostics).
\<close>

theorem parse_of_resolves_witness:
  "config (dp (snd (rd_drm_hdmi_parse_of (example_kernel 0 None) (example_state_of_node empty_node))))
     = default_config
   \<and> length (trace (snd (rd_drm_hdmi_parse_of (example_kernel 0 None)
                           (example_state_of_node empty_node)))) = 5
   \<and> config (dp (snd (rd_drm_hdmi_parse_of (example_kernel 0 None)
                        (example_state_of_node zero_clock_node))))
     = default_config\<lparr>max_pclock := 0\<rparr>
   \<and> length (trace (snd (rd_drm_hdmi_parse_of (example_kernel 0 None)
                           (example_state_of_node zero_clock_node)))) = 4"
  using parse_of_resolves
          [where K = "example_kernel 0 None" and s = "example_state_of_node empty_node"]
        parse_of_resolves
          [where K = "example_kernel 0 None" and s = "example_state_of_node zero_clock_node"]
  by (simp add: example_state_of_node_def empty_node_def zero_clock_node_def default_config_def
      i2c_edid_events_def read_or_def config_defaulted_def)

text \<open>
  C6 as stated does not hold for every store: a store that sets the maximum pixel clock
  to zero gives an envelope whose \<open>max_pclock\<close> is zero.
\<close>

theorem parse_of_zero_field:
  "\<not> 0 < max_pclock (config (dp (snd (rd_drm_hdmi_parse_of (example_kernel 0 None)
                                       (example_state_of_node zero_clock_node)))))"
  by (simp add: parse_of_eq read_or_def example_state_of_node_def zero_clock_node_def)

text \<open>
  C6, amended. For every configuration store, a field of the envelope that the
  resolver produces is strictly positive exactly when the store does not supply the
  value zero for its key: a missing key gives the positive default, a stored value is
  taken as it is.
\<close>

theorem parse_of_positive_iff:
  "(0 < max_pclock (config (dp (snd (rd_drm_hdmi_parse_of K s))))
      \<longleftrightarrow> props (dt_node s) ''realdigital,max-pclock'' \<noteq> Some 0)
   \<and> (0 < max_horz_res (config (dp (snd (rd_drm_hdmi_parse_of K s))))
      \<longleftrightarrow> props (dt_node s) ''realdigital,max-horz-res'' \<noteq> Some 0)
   \<and> (0 < max_vert_res (config (dp (snd (rd_drm_hdmi_parse_of K s))))
      \<longleftrightarrow> props (dt_node s) ''realdigital,max-vert-res'' \<noteq> Some 0)
   \<and> (0 < pref_horz_res (config (dp (snd (rd_drm_hdmi_parse_of K s))))
      \<longleftrightarrow> props (dt_node s) ''realdigital,pref-horz-res'' \<noteq> Some 0)
   \<and> (0 < pref_vert_res (config (dp (snd (rd_drm_hdmi_parse_of K s))))
      \<longleftrightarrow> props (dt_node s) ''realdigital,pref-vert-res'' \<noteq> Some 0)"
  by (simp add: parse_of_eq read_or_def DEF_PIXCLK_def DEF_MAX_HORZ_def
      DEF_MAX_VERT_def DEF_PREF_HORZ_def DEF_PREF_VERT_def word_neq_0_conv
      split: option.split)

text \<open>
  C6, amended, at the empty store and at the store that sets the maximum pixel clock
  to zero: the fields that the store leaves out are positive.
\<close>

theorem parse_of_positive_iff_witness:
  "0 < max_pclock (config (dp (snd (rd_drm_hdmi_parse_of (example_kernel 0 None)
                                     (example_state_of_node empty_node)))))
   \<and> 0 < max_horz_res (config (dp (snd (rd_drm_hdmi_parse_of (example_kernel 0 None)
                                     (example_state_of_node zero_clock_node)))))"
  using parse_of_positive_iff
          [where K = "example_kernel 0 None" and s = "example_state_of_node empty_node"]
        parse_of_positive_iff
          [where K = "example_kernel 0 None" and s = "example_state_of_node zero_clock_node"]
  by (simp add: example_state_of_node_def empty_node_def zero_clock_node_def)

subsection \<open>Power and lifecycle\<close>




end
